theory Spec2Isabelle
  imports Main "HOL-Library.Char_ord" "HOL-Library.List_Lexorder"
begin

unbundle bit_operations_syntax

section \<open>JavaScript values\<close>

text \<open>
  The error handler and the idempotency cache inspect values whose static type is
  \<^verbatim>\<open>unknown\<close> or \<^verbatim>\<open>any\<close>, so the embedding carries a type of run-time values.
  It covers \<^verbatim>\<open>undefined\<close>, \<^verbatim>\<open>null\<close>, booleans, integer numbers, strings of 8-bit
  code units, plain objects and instances of \<^verbatim>\<open>Error\<close>. Arrays, functions, symbols,
  non-integer numbers and \<^verbatim>\<open>NaN\<close> as a stored value are outside of it.

  \<open>JObj None ps\<close> is a plain object and \<open>JObj (Some n) ps\<close> an instance of
  \<^verbatim>\<open>Error\<close> (or of a subclass) whose prototype chain supplies the name \<open>n\<close>. In both,
  \<open>ps\<close> lists the own properties in property-enumeration order.
\<close>

datatype jsval =
    JUndefined
  | JNull
  | JBool bool
  | JNum int
  | JStr string
  | JObj "string option" "(string \<times> jsval) list"

type_synonym props = "(string \<times> jsval) list"

fun truthy :: "jsval \<Rightarrow> bool" where
  "truthy JUndefined = False"
| "truthy JNull = False"
| "truthy (JBool b) = b"
| "truthy (JNum n) = (n \<noteq> 0)"
| "truthy (JStr s) = (s \<noteq> [])"
| "truthy (JObj c ps) = True"

text \<open>\<^verbatim>\<open>a || b\<close>\<close>

definition js_or :: "jsval \<Rightarrow> jsval \<Rightarrow> jsval" where
  "js_or a b = (if truthy a then a else b)"

text \<open>
  \<^verbatim>\<open>v.k\<close> and \<^verbatim>\<open>v?.k\<close> on a value that is not \<^verbatim>\<open>null\<close> or \<^verbatim>\<open>undefined\<close>; \<^verbatim>\<open>v?.k\<close> on the
  two as well. \<^verbatim>\<open>Error.prototype\<close> supplies \<^verbatim>\<open>name\<close> and \<^verbatim>\<open>message\<close> to an instance
  that has no own property of that name. The members that every object inherits
  (\<^verbatim>\<open>constructor\<close>, \<^verbatim>\<open>toString\<close>, ...) and the \<^verbatim>\<open>length\<close> of a string are never read by
  the code below and are not modelled.
\<close>

fun get_prop :: "jsval \<Rightarrow> string \<Rightarrow> jsval" where
  "get_prop (JObj c ps) k =
     (case map_of ps k of
        Some v \<Rightarrow> v
      | None \<Rightarrow>
          (case c of
             None \<Rightarrow> JUndefined
           | Some n \<Rightarrow>
               if k = ''name'' then JStr n
               else if k = ''message'' then JStr ''''
               else JUndefined))"
| "get_prop v k = JUndefined"

text \<open>\<^verbatim>\<open>k in v\<close>, used by the code behind a \<^verbatim>\<open>typeof v === 'object' && v !== null\<close> guard\<close>

fun in_op :: "string \<Rightarrow> jsval \<Rightarrow> bool" where
  "in_op k (JObj c ps) =
     (k \<in> set (map fst ps) \<or> (c \<noteq> None \<and> (k = ''name'' \<or> k = ''message'')))"
| "in_op k v = False"

fun typeof_object :: "jsval \<Rightarrow> bool" where
  "typeof_object (JObj c ps) = True"
| "typeof_object JNull = True"
| "typeof_object v = False"

fun instanceof_Error :: "jsval \<Rightarrow> bool" where
  "instanceof_Error (JObj (Some n) ps) = True"
| "instanceof_Error v = False"

subsection \<open>Conversion to string\<close>

function dec_digits :: "int \<Rightarrow> string" where
  "dec_digits n =
     (if n < 10 then [''0123456789'' ! nat n]
      else dec_digits (n div 10) @ [''0123456789'' ! nat (n mod 10)])"
  by pat_completeness auto
termination
  by (relation "measure nat") auto

text \<open>\<^verbatim>\<open>Number.prototype.toString\<close> on an integer (below \<open>10\<^sup>2\<^sup>1\<close> in absolute value)\<close>

definition NumberToString :: "int \<Rightarrow> string" where
  "NumberToString n = (if n < 0 then CHR ''-'' # dec_digits (- n) else dec_digits n)"

lemma size_map_of_less:
  "map_of ps k = Some v \<Longrightarrow> size v < Suc (size_list (size_prod (\<lambda>_. 0) size) ps)"
  by (induction ps) (auto split: if_splits)

text \<open>
  \<^verbatim>\<open>String(v)\<close> and the conversion a template literal applies. A plain object prints as
  \<^verbatim>\<open>[object Object]\<close>; an \<^verbatim>\<open>Error\<close> prints through \<^verbatim>\<open>Error.prototype.toString\<close>.
\<close>

function ToString :: "jsval \<Rightarrow> string" where
  "ToString JUndefined = ''undefined''"
| "ToString JNull = ''null''"
| "ToString (JBool b) = (if b then ''true'' else ''false'')"
| "ToString (JNum n) = NumberToString n"
| "ToString (JStr s) = s"
| "ToString (JObj None ps) = ''[object Object]''"
| "ToString (JObj (Some n) ps) =
     (let name = (case map_of ps ''name'' of
                    None \<Rightarrow> n
                  | Some v \<Rightarrow> if v = JUndefined then ''Error'' else ToString v);
          msg = (case map_of ps ''message'' of
                   None \<Rightarrow> ''''
                 | Some v \<Rightarrow> if v = JUndefined then '''' else ToString v)
      in if name = '''' then msg
         else if msg = '''' then name
         else name @ '': '' @ msg)"
  by pat_completeness auto
termination
  by (relation "measure size") (auto dest: size_map_of_less)

subsection \<open>Conversion to number\<close>

definition is_ws :: "char \<Rightarrow> bool" where
  "is_ws c = (c \<in> set [CHR '' '', CHR 0x09, CHR 0x0A, CHR 0x0B, CHR 0x0C, CHR 0x0D])"

definition is_digit :: "char \<Rightarrow> bool" where
  "is_digit c = (CHR ''0'' \<le> c \<and> c \<le> CHR ''9'')"

definition digit_val :: "char \<Rightarrow> int" where
  "digit_val c = of_char c - 48"

definition parse_digits :: "string \<Rightarrow> int option" where
  "parse_digits s =
     (if s \<noteq> [] \<and> list_all is_digit s
      then Some (foldl (\<lambda>acc c. acc * 10 + digit_val c) 0 s)
      else None)"

text \<open>
  \<^verbatim>\<open>StringToNumber\<close>; \<open>None\<close> is \<^verbatim>\<open>NaN\<close>. The strings covered are the decimal integer
  literals (with an optional sign, between white space) and the strings that are no
  numeric literal at all. Literals with a fraction, an exponent or a radix prefix, and
  \<^verbatim>\<open>Infinity\<close>, are outside the integer model of numbers.
\<close>

definition StringToNumber :: "string \<Rightarrow> int option" where
  "StringToNumber s =
     (let t = rev (dropWhile is_ws (rev (dropWhile is_ws s)))
      in case t of
           [] \<Rightarrow> Some 0
         | c # r \<Rightarrow>
             if c = CHR ''+'' then parse_digits r
             else if c = CHR ''-'' then map_option uminus (parse_digits r)
             else parse_digits t)"

fun ToNumber :: "jsval \<Rightarrow> int option" where
  "ToNumber JUndefined = None"
| "ToNumber JNull = Some 0"
| "ToNumber (JBool b) = Some (if b then 1 else 0)"
| "ToNumber (JNum n) = Some n"
| "ToNumber (JStr s) = StringToNumber s"
| "ToNumber (JObj c ps) = StringToNumber (ToString (JObj c ps))"

text \<open>\<^verbatim>\<open>v >= n\<close> and \<^verbatim>\<open>v < n\<close> against a number literal: false when \<open>v\<close> converts to \<^verbatim>\<open>NaN\<close>\<close>

definition js_ge :: "jsval \<Rightarrow> int \<Rightarrow> bool" where
  "js_ge v n = (case ToNumber v of None \<Rightarrow> False | Some m \<Rightarrow> m \<ge> n)"

definition js_lt :: "jsval \<Rightarrow> int \<Rightarrow> bool" where
  "js_lt v n = (case ToNumber v of None \<Rightarrow> False | Some m \<Rightarrow> m < n)"

section \<open>Objects and JSON text\<close>

text \<open>
  Own properties are enumerated with the array-index keys first, in ascending numeric
  order, and then the other keys in the order of their creation. An array index is the
  canonical decimal spelling of an integer from \<open>0\<close> to \<open>2\<^sup>3\<^sup>2 - 2\<close>.
\<close>

definition is_array_index :: "string \<Rightarrow> bool" where
  "is_array_index k =
     (case parse_digits k of
        None \<Rightarrow> False
      | Some n \<Rightarrow> (k = ''0'' \<or> take 1 k \<noteq> ''0'') \<and> n \<le> 4294967294)"

definition index_of :: "string \<Rightarrow> int" where
  "index_of k = (case parse_digits k of None \<Rightarrow> 0 | Some n \<Rightarrow> n)"

text \<open>creation of an own property that does not exist yet\<close>

fun insert_prop :: "string \<Rightarrow> jsval \<Rightarrow> props \<Rightarrow> props" where
  "insert_prop k v [] = [(k, v)]"
| "insert_prop k v ((k', v') # ps) =
     (if is_array_index k \<and> (\<not> is_array_index k' \<or> index_of k < index_of k')
      then (k, v) # (k', v') # ps
      else (k', v') # insert_prop k v ps)"

text \<open>a new value for an own property that exists: its place is kept\<close>

fun update_prop :: "string \<Rightarrow> jsval \<Rightarrow> props \<Rightarrow> props" where
  "update_prop k v [] = []"
| "update_prop k v ((k', v') # ps) =
     (if k' = k then (k, v) # ps else (k', v') # update_prop k v ps)"

definition define_prop :: "props \<Rightarrow> string \<Rightarrow> jsval \<Rightarrow> props" where
  "define_prop ps k v =
     (if k \<in> set (map fst ps) then update_prop k v ps else insert_prop k v ps)"

text \<open>
  \<^verbatim>\<open>acc[k] = v\<close> on an object that began as the literal \<^verbatim>\<open>{}\<close>. The key
  \<^verbatim>\<open>__proto__\<close> reaches the accessor of \<^verbatim>\<open>Object.prototype\<close>, which creates no own
  property.
\<close>

definition assign_prop :: "props \<Rightarrow> string \<Rightarrow> jsval \<Rightarrow> props" where
  "assign_prop acc k v = (if k = ''__proto__'' then acc else define_prop acc k v)"

definition hex_digit :: "int \<Rightarrow> char" where
  "hex_digit n = ''0123456789abcdef'' ! nat n"

text \<open>\<^verbatim>\<open>QuoteJSONString\<close>: the escapes of JSON text\<close>

definition QuoteJSONChar :: "char \<Rightarrow> string" where
  "QuoteJSONChar c =
     (if c = CHR 0x22 then [CHR 0x5C, CHR 0x22]
      else if c = CHR 0x5C then [CHR 0x5C, CHR 0x5C]
      else if c = CHR 0x08 then [CHR 0x5C, CHR ''b'']
      else if c = CHR 0x09 then [CHR 0x5C, CHR ''t'']
      else if c = CHR 0x0A then [CHR 0x5C, CHR ''n'']
      else if c = CHR 0x0C then [CHR 0x5C, CHR ''f'']
      else if c = CHR 0x0D then [CHR 0x5C, CHR ''r'']
      else if of_char c < (32 :: int)
      then [CHR 0x5C, CHR ''u'', CHR ''0'', CHR ''0'',
            hex_digit (of_char c div 16), hex_digit (of_char c mod 16)]
      else [c])"

definition QuoteJSONString :: "string \<Rightarrow> string" where
  "QuoteJSONString s = [CHR 0x22] @ concat (map QuoteJSONChar s) @ [CHR 0x22]"

fun join :: "string \<Rightarrow> string list \<Rightarrow> string" where
  "join sep [] = []"
| "join sep [x] = x"
| "join sep (x # y # ys) = x @ sep @ join sep (y # ys)"

text \<open>
  \<^verbatim>\<open>JSON.stringify(value, null, gap)\<close>, as \<^verbatim>\<open>SerializeJSONProperty\<close> and
  \<^verbatim>\<open>SerializeJSONObject\<close> of the language definition: \<open>ind\<close> is the current
  indentation, \<open>None\<close> the result \<^verbatim>\<open>undefined\<close>. A member whose value serializes to
  \<^verbatim>\<open>undefined\<close> is left out. Of an \<^verbatim>\<open>Error\<close>, the properties \<^verbatim>\<open>message\<close> and \<^verbatim>\<open>stack\<close>,
  which its constructor creates non-enumerable, are left out as well.
\<close>

fun SerializeJSONProperty :: "string \<Rightarrow> string \<Rightarrow> jsval \<Rightarrow> string option"
  and SerializeJSONObject :: "string \<Rightarrow> string \<Rightarrow> bool \<Rightarrow> props \<Rightarrow> string"
  and SerializeJSONMembers :: "string \<Rightarrow> string \<Rightarrow> bool \<Rightarrow> props \<Rightarrow> string list"
where
  "SerializeJSONProperty gap ind JUndefined = None"
| "SerializeJSONProperty gap ind JNull = Some ''null''"
| "SerializeJSONProperty gap ind (JBool b) = Some (if b then ''true'' else ''false'')"
| "SerializeJSONProperty gap ind (JNum n) = Some (NumberToString n)"
| "SerializeJSONProperty gap ind (JStr s) = Some (QuoteJSONString s)"
| "SerializeJSONProperty gap ind (JObj c ps) = Some (SerializeJSONObject gap ind (c \<noteq> None) ps)"
| "SerializeJSONObject gap ind e ps =
     (let members = SerializeJSONMembers gap (ind @ gap) e ps
      in if members = [] then ''{}''
         else if gap = [] then ''{'' @ join '','' members @ ''}''
         else ''{'' @ [CHR 0x0A] @ ind @ gap
                @ join ('','' @ [CHR 0x0A] @ ind @ gap) members
                @ [CHR 0x0A] @ ind @ ''}'')"
| "SerializeJSONMembers gap ind e [] = []"
| "SerializeJSONMembers gap ind e ((k, v) # ps) =
     (if e \<and> (k = ''message'' \<or> k = ''stack'') then SerializeJSONMembers gap ind e ps
      else case SerializeJSONProperty gap ind v of
             None \<Rightarrow> SerializeJSONMembers gap ind e ps
           | Some t \<Rightarrow>
               (QuoteJSONString k @ '':'' @ (if gap = [] then [] else '' '') @ t)
               # SerializeJSONMembers gap ind e ps)"

text \<open>\<^verbatim>\<open>JSON.stringify(value)\<close> and \<^verbatim>\<open>JSON.stringify(value, null, 2)\<close>\<close>

definition JSON_stringify :: "jsval \<Rightarrow> string option" where
  "JSON_stringify v = SerializeJSONProperty [] [] v"

definition JSON_stringify_2 :: "jsval \<Rightarrow> string option" where
  "JSON_stringify_2 v = SerializeJSONProperty ''  '' [] v"

section \<open>SHA-256\<close>

text \<open>
  \<^verbatim>\<open>crypto.createHash('sha256').update(text).digest('hex')\<close>: the hash function of
  FIPS 180-4 on the UTF-8 bytes of the text, printed as 64 lower-case hexadecimal digits.
  A 32-bit word is an integer from \<open>0\<close> to \<open>2\<^sup>3\<^sup>2 - 1\<close>, with the wrap-around written out.
  The round constants and the initial hash value of the standard are given in decimal.
\<close>

definition K256 :: "int list" where
  "K256 = [
  1116352408, 1899447441, 3049323471, 3921009573, 961987163, 1508970993,
  2453635748, 2870763221, 3624381080, 310598401, 607225278, 1426881987,
  1925078388, 2162078206, 2614888103, 3248222580, 3835390401, 4022224774,
  264347078, 604807628, 770255983, 1249150122, 1555081692, 1996064986,
  2554220882, 2821834349, 2952996808, 3210313671, 3336571891, 3584528711,
  113926993, 338241895, 666307205, 773529912, 1294757372, 1396182291,
  1695183700, 1986661051, 2177026350, 2456956037, 2730485921, 2820302411,
  3259730800, 3345764771, 3516065817, 3600352804, 4094571909, 275423344,
  430227734, 506948616, 659060556, 883997877, 958139571, 1322822218,
  1537002063, 1747873779, 1955562222, 2024104815, 2227730452, 2361852424,
  2428436474, 2756734187, 3204031479, 3329325298]"

definition add32 :: "int \<Rightarrow> int \<Rightarrow> int" where
  "add32 x y = (x + y) mod 0x100000000"

text \<open>rotation to the right by \<open>n\<close> bits, given as \<open>p = 2\<^sup>n\<close>\<close>

definition rotr :: "int \<Rightarrow> int \<Rightarrow> int" where
  "rotr p x = x div p + (x mod p) * (0x100000000 div p)"

definition not32 :: "int \<Rightarrow> int" where
  "not32 x = 0xffffffff - x"

definition Ch :: "int \<Rightarrow> int \<Rightarrow> int \<Rightarrow> int" where
  "Ch x y z = (x AND y) XOR (not32 x AND z)"

definition Maj :: "int \<Rightarrow> int \<Rightarrow> int \<Rightarrow> int" where
  "Maj x y z = (x AND y) XOR (x AND z) XOR (y AND z)"

definition Sigma0 :: "int \<Rightarrow> int" where
  "Sigma0 x = rotr 0x4 x XOR rotr 0x2000 x XOR rotr 0x400000 x"

definition Sigma1 :: "int \<Rightarrow> int" where
  "Sigma1 x = rotr 0x40 x XOR rotr 0x800 x XOR rotr 0x2000000 x"

definition sigma0 :: "int \<Rightarrow> int" where
  "sigma0 x = rotr 0x80 x XOR rotr 0x40000 x XOR x div 0x8"

definition sigma1 :: "int \<Rightarrow> int" where
  "sigma1 x = rotr 0x20000 x XOR rotr 0x80000 x XOR x div 0x400"

definition utf8 :: "char \<Rightarrow> int list" where
  "utf8 c =
     (let n = of_char c :: int
      in if n < 128 then [n] else [192 + n div 64, 128 + n mod 64])"

text \<open>the message, the byte \<open>0x80\<close>, zero bytes up to 56 modulo 64, the bit length in 8 bytes\<close>

definition sha_pad :: "int list \<Rightarrow> int list" where
  "sha_pad bs =
     (let l = int (length bs)
      in bs @ [0x80] @ replicate (nat ((55 - l) mod 64)) 0
         @ map (\<lambda>p. (8 * l div p) mod 256)
             [0x100000000000000, 0x1000000000000, 0x10000000000, 0x100000000,
              0x1000000, 0x10000, 0x100, 1])"

fun be_words :: "int list \<Rightarrow> int list" where
  "be_words (a # b # c # d # rest) = (((a * 256 + b) * 256 + c) * 256 + d) # be_words rest"
| "be_words bs = []"

fun blocks :: "int list \<Rightarrow> int list list" where
  "blocks [] = []"
| "blocks (w # ws) = take 16 (w # ws) # blocks (drop 16 (w # ws))"

text \<open>the message schedule, kept newest word first, extended by \<open>n\<close> words\<close>

fun schedule :: "nat \<Rightarrow> int list \<Rightarrow> int list" where
  "schedule 0 ws = ws"
| "schedule (Suc n) ws =
     schedule n
       (add32 (add32 (add32 (sigma1 (ws ! 1)) (ws ! 6)) (sigma0 (ws ! 14))) (ws ! 15) # ws)"

type_synonym sha_state = "int \<times> int \<times> int \<times> int \<times> int \<times> int \<times> int \<times> int"

fun sha_round :: "sha_state \<Rightarrow> int \<times> int \<Rightarrow> sha_state" where
  "sha_round (a, b, c, d, e, f, g, h) (k, w) =
     (let t1 = add32 (add32 (add32 (add32 h (Sigma1 e)) (Ch e f g)) k) w;
          t2 = add32 (Sigma0 a) (Maj a b c)
      in (add32 t1 t2, a, b, c, add32 d t1, e, f, g))"

fun compress :: "sha_state \<Rightarrow> int list \<Rightarrow> sha_state" where
  "compress (a, b, c, d, e, f, g, h) blk =
     (case foldl sha_round (a, b, c, d, e, f, g, h) (zip K256 (rev (schedule 48 (rev blk)))) of
        (a', b', c', d', e', f', g', h') \<Rightarrow>
          (add32 a a', add32 b b', add32 c c', add32 d d',
           add32 e e', add32 f f', add32 g g', add32 h h'))"

definition hex32 :: "int \<Rightarrow> string" where
  "hex32 w =
     map (\<lambda>p. hex_digit ((w div p) mod 16))
       [0x10000000, 0x1000000, 0x100000, 0x10000, 0x1000, 0x100, 0x10, 1]"

definition sha256_hex :: "string \<Rightarrow> string" where
  "sha256_hex text =
     (case foldl compress
             (1779033703, 3144134277, 1013904242, 2773480762,
              1359893119, 2600822924, 528734635, 1541459225)
             (blocks (be_words (sha_pad (concat (map utf8 text))))) of
        (a, b, c, d, e, f, g, h) \<Rightarrow> concat (map hex32 [a, b, c, d, e, f, g, h]))"

section \<open>The error record (types/acp.ts)\<close>

text \<open>
  \<^verbatim>\<open>createACPError(type, code, message, param?, requestId?)\<close>: the flat record
  \<^verbatim>\<open>{type, code, message}\<close>, with \<^verbatim>\<open>param\<close> and \<^verbatim>\<open>request_id\<close> added when the argument is
  truthy. The callers pass values of any run-time type for the last three arguments.
\<close>

definition createACPError :: "string \<Rightarrow> string \<Rightarrow> jsval \<Rightarrow> jsval \<Rightarrow> jsval \<Rightarrow> jsval" where
  "createACPError type code message param requestId =
     JObj None
       ([(''type'', JStr type), (''code'', JStr code), (''message'', message)]
        @ (if truthy param then [(''param'', param)] else [])
        @ (if truthy requestId then [(''request_id'', requestId)] else []))"

section \<open>The idempotency cache (services/cache.ts)\<close>

record IdempotencyEntry =
  key :: string
  paramsHash :: string
  response :: jsval
  expiresAt :: int

text \<open>
  The \<^verbatim>\<open>Map\<close> of the cache is the list of its entries in insertion order;
  \<^verbatim>\<open>ttl\<close> is in milliseconds.
\<close>

record IdempotencyCache =
  cache :: "(string \<times> IdempotencyEntry) list"
  ttl :: int

fun Map_set :: "(string \<times> 'v) list \<Rightarrow> string \<Rightarrow> 'v \<Rightarrow> (string \<times> 'v) list" where
  "Map_set [] k v = [(k, v)]"
| "Map_set ((k', v') # m) k v =
     (if k' = k then (k, v) # m else (k', v') # Map_set m k v)"

definition Map_delete :: "(string \<times> 'v) list \<Rightarrow> string \<Rightarrow> (string \<times> 'v) list" where
  "Map_delete m k = filter (\<lambda>kv. fst kv \<noteq> k) m"

text \<open>
  \<^verbatim>\<open>hashParameters\<close>: a copy of the parameters object with its own keys inserted in
  sorted order, the JSON text of the copy, the SHA-256 digest of that text. The values are
  copied as they are.
\<close>

definition hashParameters :: "props \<Rightarrow> string" where
  "hashParameters parameters =
     (let sorted = foldl (\<lambda>acc k. assign_prop acc k (get_prop (JObj None parameters) k))
                     [] (sort (map fst parameters));
          json = SerializeJSONObject [] [] False sorted
      in sha256_hex json)"

text \<open>
  \<^verbatim>\<open>get(key, parameters)\<close>, with \<open>now\<close> the value of \<^verbatim>\<open>Date.now()\<close>. \<open>Inl\<close> is the thrown
  value; \<open>Inr None\<close> is the result \<^verbatim>\<open>null\<close>.
\<close>

definition IdempotencyCache_get ::
  "IdempotencyCache \<Rightarrow> int \<Rightarrow> string \<Rightarrow> props
     \<Rightarrow> (jsval + IdempotencyEntry option) \<times> IdempotencyCache" where
  "IdempotencyCache_get c now k parameters =
     (case map_of (cache c) k of
        None \<Rightarrow> (Inr None, c)
      | Some entry \<Rightarrow>
          if now > expiresAt entry
          then (Inr None, c\<lparr>cache := Map_delete (cache c) k\<rparr>)
          else if paramsHash entry \<noteq> hashParameters parameters
          then (Inl (createACPError ''request_not_idempotent'' ''idempotency_conflict''
                       (JStr ''Idempotency key reused with different parameters'')
                       JUndefined JUndefined), c)
          else (Inr (Some entry), c))"

text \<open>\<^verbatim>\<open>set(key, parameters, response)\<close>\<close>

definition IdempotencyCache_set ::
  "IdempotencyCache \<Rightarrow> int \<Rightarrow> string \<Rightarrow> props \<Rightarrow> jsval \<Rightarrow> IdempotencyCache" where
  "IdempotencyCache_set c now k parameters resp =
     (let entry = \<lparr>key = k, paramsHash = hashParameters parameters,
                   response = resp, expiresAt = now + ttl c\<rparr>
      in c\<lparr>cache := Map_set (cache c) k entry\<rparr>)"

text \<open>\<^verbatim>\<open>new IdempotencyCache(ttlSeconds)\<close>\<close>

definition new_IdempotencyCache :: "int \<Rightarrow> IdempotencyCache" where
  "new_IdempotencyCache ttlSeconds = \<lparr>cache = [], ttl = ttlSeconds * 1000\<rparr>"

section \<open>The error handler (utils/error-handler.ts)\<close>

text \<open>The five values of \<^verbatim>\<open>ACPErrorType\<close>\<close>

definition ACPErrorType :: "string list" where
  "ACPErrorType =
     [''invalid_request'', ''request_not_idempotent'', ''processing_error'',
      ''service_unavailable'', ''rate_limit_exceeded'']"

definition isACPError :: "jsval \<Rightarrow> bool" where
  "isACPError error =
     (typeof_object error \<and> error \<noteq> JNull
      \<and> in_op ''type'' error \<and> in_op ''code'' error \<and> in_op ''message'' error)"

text \<open>\<^verbatim>\<open>toLowerCase\<close>, on the letters A to Z (the code applies it to the names of two
  built-in error classes)\<close>

definition toLowerCase :: "string \<Rightarrow> string" where
  "toLowerCase s =
     map (\<lambda>c. if CHR ''A'' \<le> c \<and> c \<le> CHR ''Z'' then char_of (of_char c + (32 :: nat)) else c) s"

text \<open>the template \<^verbatim>\<open>`${context}: ${message}`\<close> when the context is truthy\<close>

definition with_context :: "jsval \<Rightarrow> jsval \<Rightarrow> jsval" where
  "with_context context message =
     (if truthy context then JStr (ToString context @ '': '' @ ToString message)
      else message)"

definition handleStandardError :: "jsval \<Rightarrow> jsval \<Rightarrow> jsval \<Rightarrow> jsval" where
  "handleStandardError error requestId context =
     (let message = with_context context (get_prop error ''message'');
          name = get_prop error ''name''
      in if name = JStr ''TypeError'' \<or> name = JStr ''RangeError''
         then createACPError ''invalid_request'' (toLowerCase (ToString name)) message
                JUndefined requestId
         else if name = JStr ''TimeoutError''
         then createACPError ''service_unavailable'' ''request_timeout'' message
                JUndefined requestId
         else createACPError ''processing_error'' ''internal_error'' message
                JUndefined requestId)"

definition handleHTTPError :: "jsval \<Rightarrow> jsval \<Rightarrow> jsval \<Rightarrow> jsval \<Rightarrow> jsval" where
  "handleHTTPError status message error requestId =
     (if status = JNum 400
      then createACPError ''invalid_request'' ''bad_request'' message
             (get_prop error ''param'') requestId
      else if status = JNum 401
      then createACPError ''invalid_request'' ''unauthorized''
             (JStr ''Invalid or missing API key'') JUndefined requestId
      else if status = JNum 403
      then createACPError ''invalid_request'' ''forbidden''
             (JStr ''Access denied'') JUndefined requestId
      else if status = JNum 404
      then createACPError ''invalid_request'' ''not_found''
             (js_or message (JStr ''Resource not found'')) JUndefined requestId
      else if status = JNum 409
      then createACPError ''request_not_idempotent'' ''idempotency_conflict''
             (js_or message (JStr ''Idempotency key reused with different parameters''))
             JUndefined requestId
      else if status = JNum 422
      then createACPError ''invalid_request'' ''validation_error'' message
             (get_prop error ''param'') requestId
      else if status = JNum 429
      then createACPError ''rate_limit_exceeded'' ''rate_limit_exceeded''
             (JStr ''Rate limit exceeded. Please try again later.'') JUndefined requestId
      else if js_ge status 500
      then createACPError ''service_unavailable'' ''service_error''
             (JStr ''Service temporarily unavailable'') JUndefined requestId
      else if js_ge status 400 \<and> js_lt status 500
      then createACPError ''invalid_request'' (''http_'' @ ToString status) message
             JUndefined requestId
      else createACPError ''processing_error'' ''http_error'' message JUndefined requestId)"

definition handleFalError :: "jsval \<Rightarrow> jsval \<Rightarrow> jsval" where
  "handleFalError error requestId =
     (let errorType = get_prop error ''error_type'';
          message = js_or (js_or (get_prop error ''message'') (get_prop error ''detail''))
                      (JStr ''Fal AI error occurred'')
      in if errorType = JStr ''validation_error''
         then createACPError ''invalid_request'' ''validation_error'' message
                (get_prop error ''param'') requestId
         else if errorType = JStr ''rate_limit_error''
         then createACPError ''rate_limit_exceeded'' ''rate_limit_exceeded'' message
                JUndefined requestId
         else if errorType = JStr ''service_unavailable''
         then createACPError ''service_unavailable'' ''fal_service_unavailable'' message
                JUndefined requestId
         else createACPError ''processing_error'' ''fal_error'' message JUndefined requestId)"

definition handleObjectError :: "jsval \<Rightarrow> jsval \<Rightarrow> jsval \<Rightarrow> jsval" where
  "handleObjectError error requestId context =
     (let status = js_or (get_prop error ''status'') (get_prop error ''statusCode'');
          message = js_or (js_or (get_prop error ''message'') (get_prop error ''error''))
                      (JStr ''Unknown error occurred'');
          contextMessage = with_context context message
      in if truthy status then handleHTTPError status contextMessage error requestId
         else if truthy (get_prop error ''error_type'') then handleFalError error requestId
         else if get_prop error ''code'' = JStr ''ECONNREFUSED''
                 \<or> get_prop error ''code'' = JStr ''ETIMEDOUT''
         then createACPError ''service_unavailable'' ''network_error''
                (JStr ''Failed to connect to service'') JUndefined requestId
         else createACPError ''processing_error'' ''unknown_error'' contextMessage
                JUndefined requestId)"

text \<open>
  \<^verbatim>\<open>formatACPError(error, requestId?, context?)\<close>. An absent argument is
  \<^verbatim>\<open>undefined\<close>. The result is typed \<^verbatim>\<open>ACPError\<close> in the source; at run time it is
  whatever object the first branch lets through.
\<close>

definition formatACPError :: "jsval \<Rightarrow> jsval \<Rightarrow> jsval \<Rightarrow> jsval" where
  "formatACPError error requestId context =
     (if isACPError error then error
      else if instanceof_Error error then handleStandardError error requestId context
      else if typeof_object error \<and> error \<noteq> JNull
      then handleObjectError error requestId context
      else createACPError ''processing_error'' ''unknown_error'' (JStr (ToString error))
             JUndefined requestId)"

section \<open>The client service (services/fal-client.ts)\<close>

text \<open>
  What the service takes from outside is a record of oracles, each indexed by the number
  of earlier uses: the clock behind \<^verbatim>\<open>Date.now()\<close> and \<^verbatim>\<open>new Date()\<close>,
  \<^verbatim>\<open>crypto.randomUUID()\<close>, the upstream call \<^verbatim>\<open>fal.subscribe\<close> (\<open>Inl\<close> is the value it
  throws) and the private method \<^verbatim>\<open>fetchSchemaFromAPI\<close> (the network request for the
  OpenAPI document and the extraction of the input schema from it). Readings of the clock
  that only feed log messages are left out, as is the logging.
\<close>

record env =
  dateNow :: "nat \<Rightarrow> int"
  toISOString :: "int \<Rightarrow> string"
  randomUUID :: "nat \<Rightarrow> string"
  subscribe :: "nat \<Rightarrow> string \<Rightarrow> jsval \<Rightarrow> jsval + jsval"
  fetchSchemaFromAPI :: "nat \<Rightarrow> string \<Rightarrow> jsval + jsval"

text \<open>the settings read from the process environment by the constructor\<close>

record config =
  SCHEMA_CACHE_TTL :: int
  MAX_RETRIES :: int
  INITIAL_RETRY_DELAY :: int

text \<open>
  The trace lists, in order, the invocations of the operation by \<^verbatim>\<open>callWithRetry\<close> (with
  the attempt number), the delays passed to \<^verbatim>\<open>sleep\<close>, and the reads and writes of the
  idempotency cache (with the key).
\<close>

datatype event = Attempt nat | Sleep int | CacheRead string | CacheWrite string

text \<open>
  The mutable state: the idempotency cache of the service (its field \<^verbatim>\<open>cache\<close>), its
  \<^verbatim>\<open>schemaCache\<close>, the \<^verbatim>\<open>schemaCache\<close> of the tool handler (a \<^verbatim>\<open>Map\<close> created in
  \<^verbatim>\<open>registerAllFalTools\<close>), the number of uses of each oracle, and the trace.
\<close>

record state =
  idem :: IdempotencyCache
  schemaCache :: "(string \<times> (jsval \<times> int)) list"
  toolSchemaCache :: "(string \<times> jsval) list"
  clockReads :: nat
  uuidCalls :: nat
  upstreamCalls :: nat
  fetchCalls :: nat
  trace :: "event list"

definition Date_now :: "env \<Rightarrow> state \<Rightarrow> int \<times> state" where
  "Date_now e s = (dateNow e (clockReads s), s\<lparr>clockReads := Suc (clockReads s)\<rparr>)"

definition generateUUID :: "env \<Rightarrow> state \<Rightarrow> string \<times> state" where
  "generateUUID e s = (randomUUID e (uuidCalls s), s\<lparr>uuidCalls := Suc (uuidCalls s)\<rparr>)"

definition sleep :: "int \<Rightarrow> state \<Rightarrow> state" where
  "sleep ms s = s\<lparr>trace := trace s @ [Sleep ms]\<rparr>"

definition isClientError :: "jsval \<Rightarrow> bool" where
  "isClientError error =
     (let status = js_or (get_prop error ''status'') (get_prop error ''statusCode'')
      in js_ge status 400 \<and> js_lt status 500)"

text \<open>
  The loop of \<^verbatim>\<open>callWithRetry\<close> from a given attempt number on. \<open>fn\<close> is the operation:
  it returns the value it resolves to (\<open>Inr\<close>) or the value it throws (\<open>Inl\<close>), and the
  state it leaves. \<^verbatim>\<open>new Error('Unknown error')\<close> stands in \<^verbatim>\<open>lastError\<close> for a thrown
  value that is no \<^verbatim>\<open>Error\<close>.
\<close>

function callWithRetry_loop ::
  "(state \<Rightarrow> (jsval + jsval) \<times> state) \<Rightarrow> int \<Rightarrow> int \<Rightarrow> jsval \<Rightarrow> nat \<Rightarrow> state
     \<Rightarrow> (jsval + jsval) \<times> state" where
  "callWithRetry_loop fn maxRetries initialDelay lastError attempt s =
     (if int attempt \<le> maxRetries
      then (case fn (s\<lparr>trace := trace s @ [Attempt attempt]\<rparr>) of
              (Inr v, s') \<Rightarrow> (Inr v, s')
            | (Inl error, s') \<Rightarrow>
                if isClientError error then (Inl error, s')
                else if int attempt = maxRetries then (Inl error, s')
                else callWithRetry_loop fn maxRetries initialDelay
                       (if instanceof_Error error then error
                        else JObj (Some ''Error'') [(''message'', JStr ''Unknown error'')])
                       (Suc attempt)
                       (sleep (initialDelay * 2 ^ attempt) s'))
      else (Inl lastError, s))"
  by pat_completeness auto
termination
  by (relation "measure (\<lambda>(fn, maxRetries, initialDelay, lastError, attempt, s).
        nat (maxRetries + 1 - int attempt))") auto

declare callWithRetry_loop.simps [simp del]

definition callWithRetry ::
  "(state \<Rightarrow> (jsval + jsval) \<times> state) \<Rightarrow> int \<Rightarrow> int \<Rightarrow> state
     \<Rightarrow> (jsval + jsval) \<times> state" where
  "callWithRetry fn maxRetries initialDelay s =
     callWithRetry_loop fn maxRetries initialDelay JUndefined 0 s"

text \<open>the operation \<^verbatim>\<open>generate\<close> passes: \<^verbatim>\<open>fal.subscribe(modelSlug, {input, logs: true})\<close>\<close>

definition subscribe_call :: "env \<Rightarrow> string \<Rightarrow> props \<Rightarrow> state \<Rightarrow> (jsval + jsval) \<times> state" where
  "subscribe_call e modelSlug parameters s =
     (subscribe e (upstreamCalls s) modelSlug
        (JObj None [(''input'', JObj None parameters), (''logs'', JBool True)]),
      s\<lparr>upstreamCalls := Suc (upstreamCalls s)\<rparr>)"

text \<open>\<^verbatim>\<open>this.cache.get\<close> and \<^verbatim>\<open>this.cache.set\<close> on the state; \<^verbatim>\<open>get\<close> reads the clock
  only when the key has an entry\<close>

definition cache_get ::
  "env \<Rightarrow> string \<Rightarrow> props \<Rightarrow> state \<Rightarrow> (jsval + IdempotencyEntry option) \<times> state" where
  "cache_get e k parameters s =
     (let s1 = s\<lparr>trace := trace s @ [CacheRead k]\<rparr>
      in case map_of (cache (idem s1)) k of
           None \<Rightarrow> (Inr None, s1)
         | Some entry \<Rightarrow>
             (case Date_now e s1 of
                (now, s2) \<Rightarrow>
                  (case IdempotencyCache_get (idem s2) now k parameters of
                     (r, c) \<Rightarrow> (r, s2\<lparr>idem := c\<rparr>))))"

definition cache_set :: "env \<Rightarrow> string \<Rightarrow> props \<Rightarrow> jsval \<Rightarrow> state \<Rightarrow> state" where
  "cache_set e k parameters resp s =
     (case Date_now e (s\<lparr>trace := trace s @ [CacheWrite k]\<rparr>) of
        (now, s1) \<Rightarrow> s1\<lparr>idem := IdempotencyCache_set (idem s1) now k parameters resp\<rparr>)"

text \<open>
  The own enumerable properties an object spread \<^verbatim>\<open>{...v}\<close> copies: those of an object,
  the characters of a string under their indices, nothing for the other values.
\<close>

fun spread :: "jsval \<Rightarrow> props" where
  "spread (JObj None ps) = ps"
| "spread (JObj (Some n) ps) = filter (\<lambda>kv. fst kv \<noteq> ''message'' \<and> fst kv \<noteq> ''stack'') ps"
| "spread (JStr s) = map (\<lambda>i. (NumberToString (int i), JStr [s ! i])) [0..<length s]"
| "spread v = []"

text \<open>the options of a call (\<^verbatim>\<open>ACPRequestOptions\<close>); \<open>None\<close> is an absent field\<close>

record ACPRequestOptions =
  idempotencyKey :: "string option"
  requestId :: "string option"

fun truthy_opt :: "string option \<Rightarrow> bool" where
  "truthy_opt None = False"
| "truthy_opt (Some t) = (t \<noteq> [])"

text \<open>
  The first \<^verbatim>\<open>try\<close> block of \<^verbatim>\<open>generate\<close>. \<open>Inl\<close> is a conflict thrown on; \<open>Inr (Some r)\<close>
  is the cached result returned; \<open>Inr None\<close> lets the call go on. Reading
  \<^verbatim>\<open>cached.response.metadata\<close> throws a \<^verbatim>\<open>TypeError\<close> when the stored response is
  \<^verbatim>\<open>null\<close> or \<^verbatim>\<open>undefined\<close>; the \<^verbatim>\<open>catch\<close> logs it and the call goes on.
\<close>

definition check_cache ::
  "env \<Rightarrow> string \<Rightarrow> props \<Rightarrow> string \<Rightarrow> state \<Rightarrow> (jsval + jsval option) \<times> state" where
  "check_cache e k parameters rid s =
     (case cache_get e k parameters s of
        (Inl error, s') \<Rightarrow>
          if truthy error \<and> typeof_object error \<and> in_op ''type'' error
          then (Inl error, s') else (Inr None, s')
      | (Inr None, s') \<Rightarrow> (Inr None, s')
      | (Inr (Some cached), s') \<Rightarrow>
          if response cached = JNull \<or> response cached = JUndefined then (Inr None, s')
          else (Inr (Some (JObj None
                  (define_prop (spread (response cached)) ''metadata''
                     (JObj None
                        (define_prop
                           (define_prop (spread (get_prop (response cached) ''metadata''))
                              ''cached'' (JBool True))
                           ''request_id'' (JStr rid)))))), s'))"

text \<open>
  \<^verbatim>\<open>generate(modelSlug, parameters, options)\<close>: \<open>Inr\<close> is the response it resolves to,
  \<open>Inl\<close> the value it throws.
\<close>

definition generate ::
  "env \<Rightarrow> config \<Rightarrow> string \<Rightarrow> props \<Rightarrow> ACPRequestOptions \<Rightarrow> state
     \<Rightarrow> (jsval + jsval) \<times> state" where
  "generate e cfg modelSlug parameters options s0 =
     (case (case requestId options of
              Some t \<Rightarrow> if t \<noteq> [] then (t, s0) else generateUUID e s0
            | None \<Rightarrow> generateUUID e s0) of
        (rid, s1) \<Rightarrow>
     (case (case idempotencyKey options of
              Some t \<Rightarrow> if t \<noteq> [] then (t, s1) else generateUUID e s1
            | None \<Rightarrow> generateUUID e s1) of
        (ikey, s2) \<Rightarrow>
     (case (if truthy_opt (idempotencyKey options)
            then check_cache e ikey parameters rid s2 else (Inr None, s2)) of
        (Inl conflict, s3) \<Rightarrow> (Inl conflict, s3)
      | (Inr (Some cached), s3) \<Rightarrow> (Inr cached, s3)
      | (Inr None, s3) \<Rightarrow>
          (case callWithRetry (subscribe_call e modelSlug parameters)
                  (MAX_RETRIES cfg) (INITIAL_RETRY_DELAY cfg) s3 of
             (Inl error, s4) \<Rightarrow>
               (Inl (formatACPError error (JStr rid) (JStr ''Generation failed'')), s4)
           | (Inr result, s4) \<Rightarrow>
               (case Date_now e s4 of
                  (now, s5) \<Rightarrow>
                    (let resp = JObj None
                           [(''data'', result),
                            (''request_id'', JStr rid),
                            (''metadata'', JObj None
                               [(''model'', JStr modelSlug),
                                (''timestamp'', JStr (toISOString e now)),
                                (''idempotency_key'', JStr ikey),
                                (''cached'', JBool False)])]
                     in (Inr resp,
                         if truthy_opt (idempotencyKey options)
                         then cache_set e ikey parameters resp s5 else s5)))))))"

text \<open>\<^verbatim>\<open>text.includes(part)\<close>\<close>

fun str_includes :: "string \<Rightarrow> string \<Rightarrow> bool" where
  "str_includes [] part = (part = [])"
| "str_includes (c # cs) part = (take (length part) (c # cs) = part \<or> str_includes cs part)"

definition url_property :: "string \<Rightarrow> jsval" where
  "url_property description =
     JObj None [(''type'', JStr ''string''), (''description'', JStr description),
                (''format'', JStr ''uri'')]"

definition getFallbackSchema :: "string \<Rightarrow> jsval" where
  "getFallbackSchema modelSlug =
     (let p0 = [(''prompt'', JObj None [(''type'', JStr ''string''),
                                        (''description'', JStr ''Input prompt for generation'')])];
          p1 = (if str_includes modelSlug ''image-to-'' \<or> str_includes modelSlug ''img2''
                then assign_prop p0 ''image_url'' (url_property ''URL of the input image'')
                else p0);
          p2 = (if str_includes modelSlug ''audio-to-'' \<or> str_includes modelSlug ''speech''
                then assign_prop p1 ''audio_url'' (url_property ''URL of the input audio'')
                else p1);
          p3 = (if str_includes modelSlug ''video-to-''
                then assign_prop p2 ''video_url'' (url_property ''URL of the input video'')
                else p2)
      in JObj None [(''type'', JStr ''object''), (''properties'', JObj None p3)])"

text \<open>
  \<^verbatim>\<open>fetchSchema(modelSlug)\<close>. A fresh entry of the service's \<^verbatim>\<open>schemaCache\<close> is returned
  without a fetch. Otherwise the schema is fetched; a fetched schema is stored with the
  time, and a failed fetch gives the fallback schema, which is not stored.
\<close>

definition fetchSchema :: "env \<Rightarrow> config \<Rightarrow> string \<Rightarrow> state \<Rightarrow> jsval \<times> state" where
  "fetchSchema e cfg modelSlug s =
     (case (case map_of (schemaCache s) modelSlug of
              None \<Rightarrow> (None, s)
            | Some (schema, timestamp) \<Rightarrow>
                (case Date_now e s of
                   (now, s1) \<Rightarrow>
                     if now - timestamp < SCHEMA_CACHE_TTL cfg then (Some schema, s1)
                     else (None, s1))) of
        (Some schema, s1) \<Rightarrow> (schema, s1)
      | (None, s1) \<Rightarrow>
          (case fetchSchemaFromAPI e (fetchCalls s1) modelSlug of
             Inr schema \<Rightarrow>
               (case Date_now e (s1\<lparr>fetchCalls := Suc (fetchCalls s1)\<rparr>) of
                  (now, s2) \<Rightarrow>
                    (schema,
                     s2\<lparr>schemaCache := Map_set (schemaCache s2) modelSlug (schema, now)\<rparr>))
           | Inl error \<Rightarrow>
               (getFallbackSchema modelSlug, s1\<lparr>fetchCalls := Suc (fetchCalls s1)\<rparr>)))"

section \<open>The tool handler (tools/generator.ts, types/fal.ts)\<close>

record FalModel =
  slug :: string

text \<open>
  \<^verbatim>\<open>sanitizeSlugToToolName\<close>: the prefix \<^verbatim>\<open>fal-ai/\<close> is dropped, every \<^verbatim>\<open>/\<close>, \<^verbatim>\<open>-\<close> and
  \<^verbatim>\<open>.\<close> becomes \<^verbatim>\<open>_\<close>, and \<^verbatim>\<open>fal_\<close> is put in front.
\<close>

definition sanitizeSlugToToolName :: "string \<Rightarrow> string" where
  "sanitizeSlugToToolName sl =
     ''fal_'' @
     map (\<lambda>c. if c = CHR ''/'' \<or> c = CHR ''-'' \<or> c = CHR ''.'' then CHR ''_'' else c)
       (if take 7 sl = ''fal-ai/'' then drop 7 sl else sl)"

text \<open>
  The parameters of a \<^verbatim>\<open>tools/call\<close> request: \<^verbatim>\<open>name\<close>, \<^verbatim>\<open>arguments\<close> (\<open>None\<close> when
  absent) and the two fields read from \<^verbatim>\<open>_meta\<close>.
\<close>

record CallToolRequest =
  params_name :: string
  params_arguments :: "props option"
  meta_requestId :: "string option"
  meta_idempotencyKey :: "string option"

text \<open>the result of a call: the \<^verbatim>\<open>text\<close> of its one content item, \<open>content_text\<close> (\<open>None\<close> is
  \<^verbatim>\<open>undefined\<close>) and \<^verbatim>\<open>isError\<close> (\<open>False\<close> when absent)\<close>

record CallToolResult =
  content_text :: "string option"
  isError :: bool

definition spread_into :: "props \<Rightarrow> jsval \<Rightarrow> props" where
  "spread_into acc v = foldl (\<lambda>a kv. define_prop a (fst kv) (snd kv)) acc (spread v)"

text \<open>\<^verbatim>\<open>a && b\<close>\<close>

definition js_and :: "jsval \<Rightarrow> jsval \<Rightarrow> jsval" where
  "js_and a b = (if truthy a then b else a)"

definition createToolErrorResponse :: "jsval \<Rightarrow> CallToolResult" where
  "createToolErrorResponse error =
     (let errorMessage =
            spread_into
              (spread_into
                 [(''type'', get_prop error ''type''),
                  (''code'', get_prop error ''code''),
                  (''message'', get_prop error ''message'')]
                 (js_and (get_prop error ''param'')
                    (JObj None [(''param'', get_prop error ''param'')])))
              (js_and (get_prop error ''request_id'')
                 (JObj None [(''request_id'', get_prop error ''request_id'')]))
      in \<lparr>content_text = JSON_stringify_2 (JObj None errorMessage), isError = True\<rparr>)"

text \<open>
  The handler of \<^verbatim>\<open>tools/call\<close> that \<^verbatim>\<open>registerAllFalTools\<close> installs, for the list
  \<open>models\<close> of the catalog.
\<close>

definition tools_call ::
  "env \<Rightarrow> config \<Rightarrow> FalModel list \<Rightarrow> CallToolRequest \<Rightarrow> state \<Rightarrow> CallToolResult \<times> state" where
  "tools_call e cfg models request s =
     (let toolName = params_name request
      in case find (\<lambda>m. sanitizeSlugToToolName (slug m) = toolName) models of
           None \<Rightarrow>
             (\<lparr>content_text = JSON_stringify
                        (JObj None [(''error'', JStr (''Tool not found: '' @ toolName))]),
               isError = True\<rparr>, s)
         | Some model \<Rightarrow>
             (case (if slug model \<in> set (map fst (toolSchemaCache s)) then s
                    else (case fetchSchema e cfg (slug model) s of
                            (schema, s') \<Rightarrow>
                              s'\<lparr>toolSchemaCache :=
                                   Map_set (toolSchemaCache s') (slug model) schema\<rparr>)) of
                s1 \<Rightarrow>
                  (case generate e cfg (slug model)
                          (case params_arguments request of None \<Rightarrow> [] | Some ps \<Rightarrow> ps)
                          \<lparr>idempotencyKey = meta_idempotencyKey request,
                           requestId = meta_requestId request\<rparr> s1 of
                     (Inr result, s2) \<Rightarrow>
                       (\<lparr>content_text = JSON_stringify_2 result, isError = False\<rparr>, s2)
                   | (Inl error, s2) \<Rightarrow>
                       (createToolErrorResponse
                          (formatACPError error JUndefined (JStr (''Tool: '' @ toolName))),
                        s2))))"

section \<open>Example environments\<close>

text \<open>the settings the constructor takes when the process environment sets none\<close>

definition default_config :: config where
  "default_config = \<lparr>SCHEMA_CACHE_TTL = 3600000, MAX_RETRIES = 4, INITIAL_RETRY_DELAY = 2000\<rparr>"

text \<open>a service and a tool handler that have just been created\<close>

definition initial_state :: state where
  "initial_state =
     \<lparr>idem = new_IdempotencyCache 86400, schemaCache = [], toolSchemaCache = [],
      clockReads = 0, uuidCalls = 0, upstreamCalls = 0, fetchCalls = 0, trace = []\<rparr>"

text \<open>an environment in which every upstream call throws \<open>error\<close> and every schema fetch
  fails\<close>

definition always_failing :: "jsval \<Rightarrow> env" where
  "always_failing error =
     \<lparr>dateNow = (\<lambda>k. 1700000000000 + int k),
      toISOString = (\<lambda>t. ''t'' @ NumberToString t),
      randomUUID = (\<lambda>k. ''uuid-'' @ NumberToString (int k)),
      subscribe = (\<lambda>k sl inp. Inl error),
      fetchSchemaFromAPI =
        (\<lambda>k sl. Inl (JObj (Some ''Error'') [(''message'', JStr ''HTTP 404: Not Found'')]))\<rparr>"

text \<open>an environment in which every upstream call succeeds and every schema fetch
  fails\<close>

definition schema_fetch_failing :: env where
  "schema_fetch_failing =
     \<lparr>dateNow = (\<lambda>k. 1700000000000 + int k),
      toISOString = (\<lambda>t. ''t'' @ NumberToString t),
      randomUUID = (\<lambda>k. ''uuid-'' @ NumberToString (int k)),
      subscribe = (\<lambda>k sl inp. Inr (JObj None [(''images'', JStr ''out.png'')])),
      fetchSchemaFromAPI =
        (\<lambda>k sl. Inl (JObj (Some ''Error'') [(''message'', JStr ''HTTP 404: Not Found'')]))\<rparr>"

text \<open>a call of the tool \<open>n\<close> with a prompt and a request id\<close>

definition flux_call :: "string \<Rightarrow> CallToolRequest" where
  "flux_call n =
     \<lparr>params_name = n, params_arguments = Some [(''prompt'', JStr ''x'')],
      meta_requestId = Some ''req-1'', meta_idempotencyKey = None\<rparr>"


section \<open>Properties of the idempotency cache\<close>

lemma map_of_Map_set: "map_of (Map_set m k v) = (map_of m)(k \<mapsto> v)"
  by (induction m) auto

lemma hash_prompt_x:
  "hashParameters [(''prompt'', JStr ''x'')] =
     ''b2c6fa432c7431184bb3a2e6a832348f92d09418f9dafb8f08bca2d429282ce2''"
  by code_simp

lemma hash_prompt_y:
  "hashParameters [(''prompt'', JStr ''y'')] =
     ''69331ee3871551b6fe18fb7f3d0043e14842d3091cb21b5c7700cc84d5c0a095''"
  by code_simp

text \<open>
  C1. When the key has an entry that has not expired and whose digest differs from the
  digest of the parameters passed, \<^verbatim>\<open>get\<close> throws the error record of type
  \<^verbatim>\<open>request_not_idempotent\<close> and code \<^verbatim>\<open>idempotency_conflict\<close>, and the cache is
  left as it was; the entry is not returned.
\<close>

theorem get_conflict:
  assumes "map_of (cache c) k = Some entry"
    and "\<not> now > expiresAt entry"
    and "paramsHash entry \<noteq> hashParameters parameters"
  shows "IdempotencyCache_get c now k parameters =
           (Inl (JObj None
              [(''type'', JStr ''request_not_idempotent''),
               (''code'', JStr ''idempotency_conflict''),
               (''message'', JStr ''Idempotency key reused with different parameters'')]),
            c)"
  using assms by (simp add: IdempotencyCache_get_def createACPError_def)

theorem get_conflict_witness:
  "IdempotencyCache_get
     (IdempotencyCache_set (new_IdempotencyCache 86400) 1000 ''k1''
        [(''prompt'', JStr ''x'')] (JObj None [(''data'', JStr ''result'')]))
     2000 ''k1'' [(''prompt'', JStr ''y'')] =
   (Inl (JObj None
      [(''type'', JStr ''request_not_idempotent''),
       (''code'', JStr ''idempotency_conflict''),
       (''message'', JStr ''Idempotency key reused with different parameters'')]),
    IdempotencyCache_set (new_IdempotencyCache 86400) 1000 ''k1''
      [(''prompt'', JStr ''x'')] (JObj None [(''data'', JStr ''result'')]))"
proof -
  let ?c = "IdempotencyCache_set (new_IdempotencyCache 86400) 1000 ''k1''
              [(''prompt'', JStr ''x'')] (JObj None [(''data'', JStr ''result'')])"
  let ?e = "\<lparr>key = ''k1'', paramsHash = hashParameters [(''prompt'', JStr ''x'')],
             response = JObj None [(''data'', JStr ''result'')],
             expiresAt = 1000 + 86400 * 1000\<rparr>"
  have 1: "map_of (cache ?c) ''k1'' = Some ?e"
    by (simp add: IdempotencyCache_set_def new_IdempotencyCache_def)
  have 2: "\<not> 2000 > expiresAt ?e"
    by simp
  have 3: "paramsHash ?e \<noteq> hashParameters [(''prompt'', JStr ''y'')]"
    by (simp add: hash_prompt_x hash_prompt_y)
  show ?thesis
    by (rule get_conflict [OF 1 2 3])
qed

text \<open>
  Two companions of C1. An entry that \<^verbatim>\<open>get\<close> returns has the digest of the parameters
  passed. And \<^verbatim>\<open>generate\<close>, called with a key whose live entry has another digest,
  throws the conflict on to its caller, makes no upstream call and leaves the cache as it
  was.
\<close>

lemma get_hit_digest:
  assumes "IdempotencyCache_get c now k ps = (Inr (Some entry), c')"
  shows "map_of (cache c) k = Some entry \<and> paramsHash entry = hashParameters ps \<and> c' = c"
  using assms by (auto simp add: IdempotencyCache_get_def split: option.splits if_splits)

lemma generate_conflict:
  assumes "idempotencyKey options = Some k" and "k \<noteq> []"
    and "map_of (cache (idem s)) k = Some entry"
    and "\<not> dateNow e (clockReads s) > expiresAt entry"
    and "paramsHash entry \<noteq> hashParameters ps"
  shows "fst (generate e cfg sl ps options s) =
           Inl (JObj None
              [(''type'', JStr ''request_not_idempotent''),
               (''code'', JStr ''idempotency_conflict''),
               (''message'', JStr ''Idempotency key reused with different parameters'')])
         \<and> idem (snd (generate e cfg sl ps options s)) = idem s
         \<and> upstreamCalls (snd (generate e cfg sl ps options s)) = upstreamCalls s"
  using assms
  by (cases "requestId options")
    (simp_all add: generate_def generateUUID_def check_cache_def cache_get_def Date_now_def
      IdempotencyCache_get_def createACPError_def)

text \<open>
  C9, as the code has it. \<^verbatim>\<open>set\<close> does not look at the entry the key may already
  have: with a live entry of the same digest in place, the key maps afterwards to a new
  entry with that digest, the response just passed and an expiry counted from the time of
  this call; the other keys keep their entries.
\<close>

theorem set_replaces_live_entry:
  assumes "map_of (cache c) k = Some entry"
    and "\<not> now > expiresAt entry"
    and "paramsHash entry = hashParameters parameters"
  shows "map_of (cache (IdempotencyCache_set c now k parameters resp)) =
           (map_of (cache c))(k \<mapsto>
              \<lparr>key = k, paramsHash = paramsHash entry, response = resp,
               expiresAt = now + ttl c\<rparr>)
         \<and> ttl (IdempotencyCache_set c now k parameters resp) = ttl c"
  using assms by (simp add: IdempotencyCache_set_def map_of_Map_set)

theorem set_replaces_live_entry_witness:
  "map_of (cache (IdempotencyCache_set
       (IdempotencyCache_set (new_IdempotencyCache 86400) 1000 ''k1''
          [(''prompt'', JStr ''x'')] (JStr ''first''))
       5000 ''k1'' [(''prompt'', JStr ''x'')] (JStr ''second''))) ''k1'' =
     Some \<lparr>key = ''k1'', paramsHash = hashParameters [(''prompt'', JStr ''x'')],
           response = JStr ''second'', expiresAt = 86405000\<rparr>"
proof -
  let ?c = "IdempotencyCache_set (new_IdempotencyCache 86400) 1000 ''k1''
              [(''prompt'', JStr ''x'')] (JStr ''first'')"
  let ?e = "\<lparr>key = ''k1'', paramsHash = hashParameters [(''prompt'', JStr ''x'')],
             response = JStr ''first'', expiresAt = 86401000\<rparr>"
  have 1: "map_of (cache ?c) ''k1'' = Some ?e"
    by (simp add: IdempotencyCache_set_def new_IdempotencyCache_def)
  have 2: "\<not> 5000 > expiresAt ?e"
    by simp
  have 3: "paramsHash ?e = hashParameters [(''prompt'', JStr ''x'')]"
    by simp
  have 4: "ttl ?c = 86400000"
    by (simp add: IdempotencyCache_set_def new_IdempotencyCache_def)
  show ?thesis
    using set_replaces_live_entry [OF 1 2 3, of "JStr ''second''"] 4 by simp
qed

text \<open>
  The claim C9 as stated fails: a second \<^verbatim>\<open>set\<close> for a key whose entry is live and
  has the same digest changes the cache; the response and the expiry of the entry are
  replaced.
\<close>

theorem set_write_once_counterexample:
  "map_of (cache (IdempotencyCache_set (new_IdempotencyCache 86400) 1000 ''k1''
       [(''prompt'', JStr ''x'')] (JStr ''first''))) ''k1'' =
     Some \<lparr>key = ''k1'', paramsHash = hashParameters [(''prompt'', JStr ''x'')],
           response = JStr ''first'', expiresAt = 86401000\<rparr>
   \<and> \<not> (5000 :: int) > 86401000
   \<and> IdempotencyCache_set
         (IdempotencyCache_set (new_IdempotencyCache 86400) 1000 ''k1''
            [(''prompt'', JStr ''x'')] (JStr ''first''))
         5000 ''k1'' [(''prompt'', JStr ''x'')] (JStr ''second'') \<noteq>
       IdempotencyCache_set (new_IdempotencyCache 86400) 1000 ''k1''
         [(''prompt'', JStr ''x'')] (JStr ''first'')
   \<and> map_of (cache (IdempotencyCache_set
         (IdempotencyCache_set (new_IdempotencyCache 86400) 1000 ''k1''
            [(''prompt'', JStr ''x'')] (JStr ''first''))
         5000 ''k1'' [(''prompt'', JStr ''x'')] (JStr ''second''))) ''k1'' =
       Some \<lparr>key = ''k1'', paramsHash = hashParameters [(''prompt'', JStr ''x'')],
             response = JStr ''second'', expiresAt = 86405000\<rparr>"
  by (simp add: IdempotencyCache_set_def new_IdempotencyCache_def)

section \<open>The digest and the order of keys\<close>

lemma hashParameters_top_level_order:
  assumes "distinct (map fst p)" and "distinct (map fst q)" and "set p = set q"
  shows "hashParameters p = hashParameters q"
proof -
  have m: "map_of p = map_of q"
    using assms by (simp add: map_of_inject_set)
  have "set (map fst p) = set (map fst q)"
    using assms(3) by simp
  then have "sort (map fst p) = sort (map fst q)"
    using assms(1,2) by (intro sorted_distinct_set_unique) simp_all
  then show ?thesis
    by (simp add: hashParameters_def m)
qed

lemma hash_image_size_wh:
  "hashParameters
     [(''image_size'', JObj None [(''width'', JNum 512), (''height'', JNum 512)])] =
     ''ac88198db93b0ce673a36299ae151c573b2e313f66daaccb25020284ce8a42b1''"
  by code_simp

lemma hash_image_size_hw:
  "hashParameters
     [(''image_size'', JObj None [(''height'', JNum 512), (''width'', JNum 512)])] =
     ''58e3b24e37c85198d8408f0cb7f87f32069ba3adfd1647ec007f697c05300cda''"
  by code_simp

text \<open>
  C2 at a concrete input. The two parameter objects hold the same nested object
  \<^verbatim>\<open>image_size\<close>, written once as \<^verbatim>\<open>{width: 512, height: 512}\<close> and once as
  \<^verbatim>\<open>{height: 512, width: 512}\<close>. Only the keys of the outer object are sorted, so the
  JSON texts differ and so do the digests: after a \<^verbatim>\<open>set\<close> with the first object, a
  \<^verbatim>\<open>get\<close> with the second throws the conflict error.
\<close>

theorem hashParameters_nested_order:
  "hashParameters
     [(''image_size'', JObj None [(''width'', JNum 512), (''height'', JNum 512)])] \<noteq>
   hashParameters
     [(''image_size'', JObj None [(''height'', JNum 512), (''width'', JNum 512)])]
   \<and> fst (IdempotencyCache_get
         (IdempotencyCache_set (new_IdempotencyCache 86400) 1000 ''k1''
            [(''image_size'', JObj None [(''width'', JNum 512), (''height'', JNum 512)])]
            (JStr ''result''))
         2000 ''k1''
         [(''image_size'', JObj None [(''height'', JNum 512), (''width'', JNum 512)])]) =
       Inl (JObj None
         [(''type'', JStr ''request_not_idempotent''),
          (''code'', JStr ''idempotency_conflict''),
          (''message'', JStr ''Idempotency key reused with different parameters'')])"
  by (simp add: hash_image_size_wh hash_image_size_hw IdempotencyCache_get_def
      IdempotencyCache_set_def new_IdempotencyCache_def createACPError_def)

section \<open>Properties of the error handler\<close>

lemma isACPError_createACPError: "isACPError (createACPError t c m p r)"
  by (simp add: isACPError_def createACPError_def)

lemma isACPError_handleStandardError: "isACPError (handleStandardError e r ctx)"
  by (simp add: handleStandardError_def Let_def isACPError_createACPError)

lemma isACPError_handleHTTPError: "isACPError (handleHTTPError st m e r)"
  by (simp add: handleHTTPError_def isACPError_createACPError)

lemma isACPError_handleFalError: "isACPError (handleFalError e r)"
  by (simp add: handleFalError_def Let_def isACPError_createACPError)

lemma isACPError_handleObjectError: "isACPError (handleObjectError e r ctx)"
  by (simp add: handleObjectError_def Let_def isACPError_createACPError
      isACPError_handleHTTPError isACPError_handleFalError)

lemma isACPError_formatACPError: "isACPError (formatACPError e r ctx)"
  by (simp add: formatACPError_def isACPError_createACPError
      isACPError_handleStandardError isACPError_handleObjectError)

lemma formatACPError_passthrough: "isACPError e \<Longrightarrow> formatACPError e r ctx = e"
  by (simp add: formatACPError_def)

text \<open>
  C6. Formatting is idempotent: whatever the value \<open>x\<close>, and whatever request ids and
  contexts the two calls are given, formatting the result of \<^verbatim>\<open>formatACPError\<close> again
  returns it unchanged. Every branch builds a record with \<^verbatim>\<open>type\<close>, \<^verbatim>\<open>code\<close> and
  \<^verbatim>\<open>message\<close>, and a value that has these three properties is returned by the first
  branch as it is, with its \<^verbatim>\<open>param\<close> and its \<^verbatim>\<open>request_id\<close>: the request id passed
  to the call does not replace the one the value carries.
\<close>

theorem formatACPError_idempotent:
  "formatACPError (formatACPError x rid ctx) rid' ctx' = formatACPError x rid ctx
   \<and> (isACPError x \<longrightarrow> formatACPError x rid ctx = x)"
  by (simp add: formatACPError_passthrough isACPError_formatACPError)

theorem formatACPError_idempotent_witness:
  "formatACPError
     (formatACPError
        (createACPError ''invalid_request'' ''test_error'' (JStr ''Test message'')
           (JStr ''$.test.field'') (JStr ''req-123''))
        (JStr ''req-456'') JUndefined)
     (JStr ''req-789'') (JStr ''Tool: fal_flux_pro'') =
   JObj None
     [(''type'', JStr ''invalid_request''), (''code'', JStr ''test_error''),
      (''message'', JStr ''Test message''), (''param'', JStr ''$.test.field''),
      (''request_id'', JStr ''req-123'')]"
proof -
  let ?x = "createACPError ''invalid_request'' ''test_error'' (JStr ''Test message'')
              (JStr ''$.test.field'') (JStr ''req-123'')"
  have 1: "isACPError ?x"
    by (simp add: isACPError_def createACPError_def)
  have 2: "?x = JObj None
     [(''type'', JStr ''invalid_request''), (''code'', JStr ''test_error''),
      (''message'', JStr ''Test message''), (''param'', JStr ''$.test.field''),
      (''request_id'', JStr ''req-123'')]"
    by (simp add: createACPError_def)
  note idem = formatACPError_idempotent
      [of ?x "JStr ''req-456''" JUndefined "JStr ''req-789''" "JStr ''Tool: fal_flux_pro''"]
  have 3: "formatACPError (formatACPError ?x (JStr ''req-456'') JUndefined)
             (JStr ''req-789'') (JStr ''Tool: fal_flux_pro'') =
           formatACPError ?x (JStr ''req-456'') JUndefined"
    using idem by (rule conjunct1)
  have 4: "formatACPError ?x (JStr ''req-456'') JUndefined = ?x"
    using idem 1 by blast
  show ?thesis
    using 3 4 2 by (rule trans [OF trans])
qed

text \<open>
  C10. The test for an already formatted error is structural. An object with the
  properties \<^verbatim>\<open>type\<close>, \<^verbatim>\<open>code\<close> and \<^verbatim>\<open>message\<close> is returned as it is, whatever the
  values of its properties; so it is not the case that the \<^verbatim>\<open>type\<close> of every result
  is one of the five of \<^verbatim>\<open>ACPErrorType\<close>.
\<close>

theorem isACPError_structural:
  assumes "in_op ''type'' (JObj c ps)"
    and "in_op ''code'' (JObj c ps)"
    and "in_op ''message'' (JObj c ps)"
  shows "formatACPError (JObj c ps) rid ctx = JObj c ps
         \<and> \<not> (\<forall>x r ctx. get_prop (formatACPError x r ctx) ''type'' \<in> JStr ` set ACPErrorType)"
proof
  show "formatACPError (JObj c ps) rid ctx = JObj c ps"
    using assms by (simp add: formatACPError_def isACPError_def)
  have "get_prop (formatACPError
          (JObj None [(''type'', JNum 7), (''code'', JNull), (''message'', JUndefined)])
          JUndefined JUndefined) ''type'' = JNum 7"
    by (simp add: formatACPError_def isACPError_def)
  moreover have "JNum 7 \<notin> JStr ` set ACPErrorType"
    by auto
  ultimately show "\<not> (\<forall>x r ctx. get_prop (formatACPError x r ctx) ''type'' \<in> JStr ` set ACPErrorType)"
    by metis
qed

theorem isACPError_structural_witness:
  "formatACPError
     (JObj None [(''type'', JStr ''teapot''), (''code'', JNum 418), (''message'', JNull),
                 (''request_id'', JStr ''req-123'')])
     (JStr ''req-456'') (JStr ''Tool: fal_flux_pro'') =
   JObj None [(''type'', JStr ''teapot''), (''code'', JNum 418), (''message'', JNull),
              (''request_id'', JStr ''req-123'')]
   \<and> ''teapot'' \<notin> set ACPErrorType"
proof -
  let ?e = "[(''type'', JStr ''teapot''), (''code'', JNum 418), (''message'', JNull),
             (''request_id'', JStr ''req-123'')]"
  have 1: "in_op ''type'' (JObj None ?e)" by simp
  have 2: "in_op ''code'' (JObj None ?e)" by simp
  have 3: "in_op ''message'' (JObj None ?e)" by simp
  show ?thesis
    using isACPError_structural [OF 1 2 3, of "JStr ''req-456''" "JStr ''Tool: fal_flux_pro''"]
    by (simp add: ACPErrorType_def)
qed

section \<open>Properties of the retry loop\<close>

lemma isClientError_status:
  assumes "js_or (get_prop error ''status'') (get_prop error ''statusCode'') = JNum n"
  shows "isClientError error = (400 \<le> n \<and> n < 500)"
  using assms by (simp add: isClientError_def js_ge_def js_lt_def)





lemma callWithRetry_client_error:
  assumes "fn (s\<lparr>trace := trace s @ [Attempt 0]\<rparr>) = (Inl error, s')"
    and "isClientError error" and "0 \<le> maxRetries"
  shows "callWithRetry fn maxRetries initialDelay s = (Inl error, s')"
  using assms by (simp add: callWithRetry_def callWithRetry_loop.simps)



text \<open>
  C5, as the code has it. The status 429 lies in the range that \<^verbatim>\<open>isClientError\<close>
  tests, so a failure with this status is thrown on at once, without a sleep and without
  a retry, even when retries remain.
\<close>

theorem status_429_not_retried:
  assumes "fn (s\<lparr>trace := trace s @ [Attempt 0]\<rparr>) = (Inl error, s')"
    and "js_or (get_prop error ''status'') (get_prop error ''statusCode'') = JNum 429"
    and "0 \<le> maxRetries"
  shows "isClientError error \<and> callWithRetry fn maxRetries initialDelay s = (Inl error, s')"
  using assms by (simp add: isClientError_status callWithRetry_client_error)

theorem status_429_not_retried_witness:
  "isClientError (JObj None [(''statusCode'', JNum 429)])
   \<and> callWithRetry
       (subscribe_call (always_failing (JObj None [(''statusCode'', JNum 429)]))
          ''fal-ai/flux-pro'' [])
       1 500 initial_state =
     (Inl (JObj None [(''statusCode'', JNum 429)]),
      initial_state\<lparr>upstreamCalls := 1, trace := [Attempt 0]\<rparr>)"
proof -
  let ?e = "JObj None [(''statusCode'', JNum 429)]"
  have 1: "subscribe_call (always_failing ?e) ''fal-ai/flux-pro'' []
             (initial_state\<lparr>trace := trace initial_state @ [Attempt 0]\<rparr>) =
           (Inl ?e, initial_state\<lparr>upstreamCalls := 1, trace := [Attempt 0]\<rparr>)"
    by (simp add: subscribe_call_def always_failing_def initial_state_def)
  have 2: "js_or (get_prop ?e ''status'') (get_prop ?e ''statusCode'') = JNum 429"
    by (simp add: js_or_def)
  show ?thesis
    using status_429_not_retried
      [where fn = "subscribe_call (always_failing ?e) ''fal-ai/flux-pro'' []"
         and s = initial_state and maxRetries = 1 and initialDelay = 500, OF 1 2]
    by simp
qed

text \<open>
  The claim C5 as stated fails: with four retries allowed, an upstream call that fails
  with status 429 is made once, and no delay is slept.
\<close>

theorem status_429_retry_counterexample:
  "callWithRetry
     (subscribe_call (always_failing (JObj (Some ''ApiError'')
          [(''message'', JStr ''Too Many Requests''), (''status'', JNum 429)]))
        ''fal-ai/flux-pro'' [(''prompt'', JStr ''x'')])
     4 2000 initial_state =
   (Inl (JObj (Some ''ApiError'')
          [(''message'', JStr ''Too Many Requests''), (''status'', JNum 429)]),
    initial_state\<lparr>upstreamCalls := 1, trace := [Attempt 0]\<rparr>)"
  by code_simp




section \<open>Properties of the tool handler\<close>

lemma tools_call_unknown:
  assumes "find (\<lambda>m. sanitizeSlugToToolName (slug m) = params_name request) models = None"
  shows "tools_call e cfg models request s =
           (\<lparr>content_text =
               Some (''{'' @ QuoteJSONString ''error'' @ '':''
                     @ QuoteJSONString (''Tool not found: '' @ params_name request) @ ''}''),
             isError = True\<rparr>, s)"
  using assms by (simp add: tools_call_def JSON_stringify_def)

text \<open>
  C7 at a concrete input. The catalog holds the one model \<^verbatim>\<open>fal-ai/flux-pro\<close>, and the
  tool \<^verbatim>\<open>fal_flux_max\<close> is called with an idempotency key. The state is unchanged (no
  read or write of the cache, no upstream call, no schema fetch), but the text of the
  answer is the JSON text of \<^verbatim>\<open>{error: "Tool not found: fal_flux_max"}\<close>: an object with
  no \<^verbatim>\<open>type\<close> and no \<^verbatim>\<open>code\<close>, which is not the record of type \<^verbatim>\<open>invalid_request\<close> and
  code \<^verbatim>\<open>not_found\<close>.
\<close>

theorem tools_call_unknown_tool:
  "tools_call schema_fetch_failing default_config [\<lparr>slug = ''fal-ai/flux-pro''\<rparr>]
     \<lparr>params_name = ''fal_flux_max'', params_arguments = Some [(''prompt'', JStr ''x'')],
      meta_requestId = Some ''req-1'', meta_idempotencyKey = Some ''k1''\<rparr> initial_state =
     (\<lparr>content_text =
         Some ([CHR ''{'', CHR 0x22] @ ''error'' @ [CHR 0x22, CHR '':'', CHR 0x22]
               @ ''Tool not found: fal_flux_max'' @ [CHR 0x22, CHR ''}'']),
       isError = True\<rparr>, initial_state)
   \<and> JSON_stringify (JObj None [(''error'', JStr ''Tool not found: fal_flux_max'')]) =
       Some ([CHR ''{'', CHR 0x22] @ ''error'' @ [CHR 0x22, CHR '':'', CHR 0x22]
             @ ''Tool not found: fal_flux_max'' @ [CHR 0x22, CHR ''}''])
   \<and> \<not> isACPError (JObj None [(''error'', JStr ''Tool not found: fal_flux_max'')])"
  by code_simp

lemma callWithRetry_loop_frame:
  assumes "\<And>s. f (snd (fn s)) = f s" and "\<And>s t. f (s\<lparr>trace := t\<rparr>) = f s"
  shows "f (snd (callWithRetry_loop fn m d le a s)) = f s"
  using assms
proof (induction fn m d le a s rule: callWithRetry_loop.induct)
  case (1 fn maxRetries initialDelay lastError attempt s)
  have step: "f (snd (fn (s\<lparr>trace := trace s @ [Attempt attempt]\<rparr>))) = f s"
    by (simp add: "1.prems")
  show ?case
  proof (cases "fn (s\<lparr>trace := trace s @ [Attempt attempt]\<rparr>)")
    case (Pair r s')
    then have s': "f s' = f s" using step by simp
    show ?thesis
    proof (cases r)
      case (Inr v)
      then show ?thesis
        using Pair s' by (subst callWithRetry_loop.simps) simp
    next
      case (Inl error)
      show ?thesis
      proof (cases "int attempt \<le> maxRetries \<and> \<not> isClientError error \<and> int attempt \<noteq> maxRetries")
        case True
        then have "f (snd (callWithRetry_loop fn maxRetries initialDelay
                     (if instanceof_Error error then error
                      else JObj (Some ''Error'') [(''message'', JStr ''Unknown error'')])
                     (Suc attempt) (sleep (initialDelay * 2 ^ attempt) s'))) =
                   f (sleep (initialDelay * 2 ^ attempt) s')"
          using "1.IH" [of "Inl error" s' error] Pair Inl "1.prems" by simp
        then show ?thesis
          using True Pair Inl s' "1.prems"(2)
          by (subst callWithRetry_loop.simps) (simp add: sleep_def)
      next
        case False
        then show ?thesis
          using Pair Inl s' by (subst callWithRetry_loop.simps) auto
      qed
    qed
  qed
qed

lemma cache_get_frame:
  assumes "\<And>s t. f (s\<lparr>trace := t\<rparr>) = f s" and "\<And>s n. f (s\<lparr>clockReads := n\<rparr>) = f s"
    and "\<And>s c. f (s\<lparr>idem := c\<rparr>) = f s"
  shows "f (snd (cache_get e k ps s)) = f s"
  by (simp add: cache_get_def Date_now_def Let_def split_beta assms split: option.split)

lemma check_cache_frame:
  assumes "\<And>s t. f (s\<lparr>trace := t\<rparr>) = f s" and "\<And>s n. f (s\<lparr>clockReads := n\<rparr>) = f s"
    and "\<And>s c. f (s\<lparr>idem := c\<rparr>) = f s"
  shows "f (snd (check_cache e k ps rid s)) = f s"
  using cache_get_frame [of f e k ps s, OF assms]
  by (simp add: check_cache_def split_beta split: sum.split option.split)

lemma generate_frame:
  assumes tr: "\<And>s t. f (s\<lparr>trace := t\<rparr>) = f s"
    and cl: "\<And>s n. f (s\<lparr>clockReads := n\<rparr>) = f s"
    and uu: "\<And>s n. f (s\<lparr>uuidCalls := n\<rparr>) = f s"
    and up: "\<And>s n. f (s\<lparr>upstreamCalls := n\<rparr>) = f s"
    and idm: "\<And>s c. f (s\<lparr>idem := c\<rparr>) = f s"
  shows "f (snd (generate e cfg sl ps options s)) = f s"
proof -
  have loop: "f (snd (callWithRetry (subscribe_call e sl ps) m d s')) = f s'" for m d s'
    unfolding callWithRetry_def
    by (rule callWithRetry_loop_frame) (simp_all add: subscribe_call_def up tr)
  have chk: "f (snd (check_cache e k ps rid s')) = f s'" for k rid s'
    by (rule check_cache_frame) (simp_all add: tr cl idm)
  have st: "f (cache_set e k ps r s') = f s'" for k r s'
    by (simp add: cache_set_def Date_now_def tr cl idm split_beta)
  have id: "f (snd (generateUUID e s')) = f s'" for s'
    by (simp add: generateUUID_def uu)
  show ?thesis
    by (simp add: generate_def split_beta Let_def loop chk st id Date_now_def cl
        split: sum.split option.split)
qed

lemma Map_set_keys: "fst ` set (Map_set m k v) = insert k (fst ` set m)"
  by (induction m) force+

lemma tools_call_cached_schema:
  assumes "find (\<lambda>m. sanitizeSlugToToolName (slug m) = params_name request) models = Some model"
    and "slug model \<in> set (map fst (toolSchemaCache s))"
  shows "fetchCalls (snd (tools_call e cfg models request s)) = fetchCalls s"
  using assms
  by (simp add: tools_call_def split_beta generate_frame [where f = fetchCalls]
      split: sum.split)

lemma tools_call_failed_fetch:
  assumes "find (\<lambda>m. sanitizeSlugToToolName (slug m) = params_name request) models = Some model"
    and "slug model \<notin> set (map fst (toolSchemaCache s))"
    and "map_of (schemaCache s) (slug model) = None"
    and "fetchSchemaFromAPI e (fetchCalls s) (slug model) = Inl err"
  shows "toolSchemaCache (snd (tools_call e cfg models request s)) =
           Map_set (toolSchemaCache s) (slug model) (getFallbackSchema (slug model))
         \<and> fetchCalls (snd (tools_call e cfg models request s)) = Suc (fetchCalls s)
         \<and> schemaCache (snd (tools_call e cfg models request s)) = schemaCache s"
  using assms
  by (simp add: tools_call_def fetchSchema_def split_beta
      generate_frame [where f = fetchCalls] generate_frame [where f = toolSchemaCache]
      generate_frame [where f = schemaCache] split: sum.split)

lemma fallback_schema_never_refetched:
  assumes "find (\<lambda>m. sanitizeSlugToToolName (slug m) = params_name request) models = Some model"
    and "slug model \<notin> set (map fst (toolSchemaCache s))"
    and "map_of (schemaCache s) (slug model) = None"
    and "fetchSchemaFromAPI e (fetchCalls s) (slug model) = Inl err"
    and "find (\<lambda>m. sanitizeSlugToToolName (slug m) = params_name request') models = Some model"
  shows "fetchCalls (snd (tools_call e' cfg' models request'
                      (snd (tools_call e cfg models request s)))) =
         fetchCalls (snd (tools_call e cfg models request s))"
  using tools_call_failed_fetch [OF assms(1-4), of cfg]
  by (intro tools_call_cached_schema [OF assms(5)]) (simp add: Map_set_keys)
text \<open>
  C8 at a concrete input. Every schema fetch fails. The first call of the tool
  \<^verbatim>\<open>fal_flux_pro\<close> attempts one fetch; the service keeps nothing in its \<^verbatim>\<open>schemaCache\<close>,
  but the handler stores the fallback schema in its own. A second call attempts no fetch:
  the count stays at one. Two calls of \<^verbatim>\<open>fetchSchema\<close> itself attempt two fetches.
\<close>

theorem fallback_schema_sticks:
  "fetchCalls (snd (tools_call schema_fetch_failing default_config
       [\<lparr>slug = ''fal-ai/flux-pro''\<rparr>] (flux_call ''fal_flux_pro'') initial_state)) = 1
   \<and> schemaCache (snd (tools_call schema_fetch_failing default_config
       [\<lparr>slug = ''fal-ai/flux-pro''\<rparr>] (flux_call ''fal_flux_pro'') initial_state)) = []
   \<and> toolSchemaCache (snd (tools_call schema_fetch_failing default_config
       [\<lparr>slug = ''fal-ai/flux-pro''\<rparr>] (flux_call ''fal_flux_pro'') initial_state)) =
       [(''fal-ai/flux-pro'', getFallbackSchema ''fal-ai/flux-pro'')]
   \<and> fetchCalls (snd (tools_call schema_fetch_failing default_config
       [\<lparr>slug = ''fal-ai/flux-pro''\<rparr>] (flux_call ''fal_flux_pro'')
       (snd (tools_call schema_fetch_failing default_config
          [\<lparr>slug = ''fal-ai/flux-pro''\<rparr>] (flux_call ''fal_flux_pro'') initial_state)))) = 1
   \<and> fetchCalls (snd (fetchSchema schema_fetch_failing default_config ''fal-ai/flux-pro''
       (snd (fetchSchema schema_fetch_failing default_config ''fal-ai/flux-pro''
          initial_state)))) = 2"
  by code_simp

end
